theory Spec2Isabelle
  imports Main
begin

section \<open>Data model\<close>

text \<open>
  The proof artifact of \<^verbatim>\<open>server/services/zk-identity.ts\<close> (interface ZKProof).
  The TypeScript field \<^verbatim>\<open>proof\<close> is a keyword here, so the three fields carry the
  prefix \<open>zkp_\<close>. Strings are character lists, \<open>@\<close> is JavaScript's \<^verbatim>\<open>+\<close> on
  strings, and \<open>length\<close> is \<^verbatim>\<open>.length\<close> on the strings a character list can hold
  (one character for each code unit below 256), which covers the hexadecimal strings
  the service produces and tests.
\<close>

record ZKProof =
  zkp_proof :: string
  zkp_publicSignals :: "string list"
  zkp_nullifierHash :: string

text \<open>The identity bundle handed to the caller (interface ZKIdentityData), prefix \<open>zid_\<close>.\<close>

record ZKIdentityData =
  zid_commitment :: string
  zid_nullifierHash :: string
  zid_trapdoor :: string
  zid_nullifier :: string
  zid_groupId :: string

text \<open>
  Rows of the tables \<^verbatim>\<open>zk_identities\<close> and \<^verbatim>\<open>nullifier_tracker\<close> of
  \<^verbatim>\<open>shared/schema.ts\<close>. The columns \<^verbatim>\<open>id\<close> and \<^verbatim>\<open>created_at\<close> are filled by
  database defaults and read by none of the functions below; they are left out.
\<close>

record ZkIdentity =
  zk_commitment :: string
  zk_nullifierHash :: string
  zk_groupId :: string
  zk_isValid :: bool

record NullifierTracker =
  nt_nullifierHash :: string
  nt_action :: string
  nt_topic :: string

text \<open>The two tables the service reaches through the \<^verbatim>\<open>storage\<close> singleton.\<close>

record storage =
  zkIdentities :: "ZkIdentity list"
  nullifierTracker :: "NullifierTracker list"

text \<open>
  Errors as values. \<open>ActionAlreadyPerformed\<close> is
  \<^verbatim>\<open>Error('Action already performed with this identity')\<close> (the AlreadyUsed rejection),
  \<open>DuplicateNullifier\<close> and \<open>DuplicateCommitment\<close> are the unique-constraint violations of
  the storage layer, \<open>FailedToGenerateProof\<close> is \<^verbatim>\<open>Error('Failed to generate ZK proof')\<close>
  and \<open>FailedToGenerateIdentity\<close> is \<^verbatim>\<open>Error('Failed to generate ZK identity')\<close>, the
  errors the \<^verbatim>\<open>catch\<close> blocks rethrow.
\<close>

datatype error =
    ActionAlreadyPerformed
  | DuplicateNullifier
  | DuplicateCommitment
  | FailedToGenerateProof
  | FailedToGenerateIdentity

section \<open>The storage layer\<close>

definition checkNullifierUsed :: "string \<Rightarrow> string \<Rightarrow> string \<Rightarrow> storage \<Rightarrow> bool \<times> storage" where
  \<comment> \<open>Modelled from the spec: \<^verbatim>\<open>server/storage.ts\<close> is missing. Section 6 gives
      \<^verbatim>\<open>existsFor(nullifierHash, action, topic) -> bool\<close>, a query on the ledger.\<close>
  "checkNullifierUsed nullifierHash action topic st =
     (list_ex (\<lambda>e. nt_nullifierHash e = nullifierHash \<and> nt_action e = action \<and> nt_topic e = topic)
        (nullifierTracker st), st)"

definition addNullifier :: "string \<Rightarrow> string \<Rightarrow> string \<Rightarrow> storage \<Rightarrow> (error + unit) \<times> storage" where
  \<comment> \<open>Modelled from the spec: \<^verbatim>\<open>server/storage.ts\<close> is missing. Section 6 gives
      \<^verbatim>\<open>insert(nullifierHash, action, topic)\<close>, which fails DuplicateNullifier atomically if
      the hash is already present; \<^verbatim>\<open>nullifier_hash\<close> is \<^verbatim>\<open>unique()\<close> in schema.ts.\<close>
  "addNullifier nullifierHash action topic st =
     (if list_ex (\<lambda>e. nt_nullifierHash e = nullifierHash) (nullifierTracker st)
      then (Inl DuplicateNullifier, st)
      else (Inr (),
            st\<lparr>nullifierTracker := nullifierTracker st @
                 [\<lparr>nt_nullifierHash = nullifierHash, nt_action = action, nt_topic = topic\<rparr>]\<rparr>))"

definition getZkIdentityByCommitment :: "string \<Rightarrow> storage \<Rightarrow> ZkIdentity option \<times> storage" where
  \<comment> \<open>Modelled from the spec: \<^verbatim>\<open>server/storage.ts\<close> is missing. Section 6 gives
      \<^verbatim>\<open>getByCommitment(commitment) -> record | none\<close>, a query on the registry.\<close>
  "getZkIdentityByCommitment commitment st =
     (find (\<lambda>i. zk_commitment i = commitment) (zkIdentities st), st)"

definition createZkIdentity :: "string \<Rightarrow> string \<Rightarrow> string \<Rightarrow> storage \<Rightarrow> (error + unit) \<times> storage" where
  \<comment> \<open>Modelled from the spec: \<^verbatim>\<open>server/storage.ts\<close> is missing. Section 6 gives
      \<^verbatim>\<open>put(commitment, groupNullifierHash, groupId)\<close>, failing DuplicateCommitment on
      collision; both columns are \<^verbatim>\<open>unique()\<close> and \<^verbatim>\<open>is_valid\<close> defaults to true in
      schema.ts.\<close>
  "createZkIdentity commitment nullifierHash groupId st =
     (if list_ex (\<lambda>i. zk_commitment i = commitment \<or> zk_nullifierHash i = nullifierHash)
           (zkIdentities st)
      then (Inl DuplicateCommitment, st)
      else (Inr (),
            st\<lparr>zkIdentities := zkIdentities st @
                 [\<lparr>zk_commitment = commitment, zk_nullifierHash = nullifierHash,
                   zk_groupId = groupId, zk_isValid = True\<rparr>]\<rparr>))"

section \<open>Hash derivations of ZkIdentityService\<close>

text \<open>
  \<^verbatim>\<open>crypto.createHash('sha256').update(s).digest('hex')\<close> belongs to the runtime, not to
  the repository: the digest is the parameter \<open>sha256\<close> of every function that hashes.
\<close>

definition generateCommitment :: "(string \<Rightarrow> string) \<Rightarrow> string \<Rightarrow> string \<Rightarrow> string" where
  "generateCommitment sha256 trapdoor nullifier = ''0x'' @ sha256 (trapdoor @ nullifier)"

definition generateNullifierHash :: "(string \<Rightarrow> string) \<Rightarrow> string \<Rightarrow> string \<Rightarrow> string" where
  "generateNullifierHash sha256 nullifier groupId = ''0x'' @ sha256 (nullifier @ groupId)"

definition generateActionNullifierHash ::
    "(string \<Rightarrow> string) \<Rightarrow> string \<Rightarrow> string \<Rightarrow> string \<Rightarrow> string" where
  "generateActionNullifierHash sha256 nullifier action topic =
     ''0x'' @ sha256 (nullifier @ action @ topic)"

text \<open>\<^verbatim>\<open>Date.now().toString()\<close>: the clock reading, a natural number, in decimal.\<close>

function toString :: "nat \<Rightarrow> string" where
  "toString n =
     (if n < 10 then [char_of (48 + n)]
      else toString (n div 10) @ [char_of (48 + n mod 10)])"
  by pat_completeness auto
termination
  by (relation "measure id") auto

declare toString.simps [simp del]

definition generateZkProofData ::
    "(string \<Rightarrow> string) \<Rightarrow> nat \<Rightarrow> ZKIdentityData \<Rightarrow> string \<Rightarrow> string \<Rightarrow> string" where
  "generateZkProofData sha256 now identity action topic =
     ''0x'' @ sha256 (zid_commitment identity @ action @ topic @ toString now)"

section \<open>ZkIdentityService\<close>

text \<open>
  \<^verbatim>\<open>generateIdentity\<close>. The two secrets come from \<^verbatim>\<open>generateRandomField\<close>, that is
  from the runtime's random source: they are arguments here. Any failure inside the
  \<^verbatim>\<open>try\<close> block is rethrown as \<^verbatim>\<open>Error('Failed to generate ZK identity')\<close>.
\<close>

definition generateIdentity ::
    "(string \<Rightarrow> string) \<Rightarrow> string \<Rightarrow> string \<Rightarrow> string \<Rightarrow> storage
     \<Rightarrow> (error + ZKIdentityData) \<times> storage" where
  "generateIdentity sha256 trapdoor nullifier groupId st =
     (let commitment = generateCommitment sha256 trapdoor nullifier;
          nullifierHash = generateNullifierHash sha256 nullifier groupId
      in case createZkIdentity commitment nullifierHash groupId st of
           (Inl e, st1) \<Rightarrow> (Inl FailedToGenerateIdentity, st1)
         | (Inr u, st1) \<Rightarrow>
             (Inr \<lparr>zid_commitment = commitment, zid_nullifierHash = nullifierHash,
                   zid_trapdoor = trapdoor, zid_nullifier = nullifier,
                   zid_groupId = groupId\<rparr>, st1))"

text \<open>
  The body of the \<^verbatim>\<open>try\<close> block of \<^verbatim>\<open>generateProof\<close> (lines 53 to 76): derive the
  action nullifier, check the ledger, throw if it is used, build the proof string,
  record the nullifier, return the artifact.
\<close>

definition generateProof_try ::
    "(string \<Rightarrow> string) \<Rightarrow> nat \<Rightarrow> ZKIdentityData \<Rightarrow> string \<Rightarrow> string \<Rightarrow> storage
     \<Rightarrow> (error + ZKProof) \<times> storage" where
  "generateProof_try sha256 now identity action topic st =
     (let actionNullifierHash =
            generateActionNullifierHash sha256 (zid_nullifier identity) action topic
      in case checkNullifierUsed actionNullifierHash action topic st of
           (alreadyUsed, st1) \<Rightarrow>
             if alreadyUsed then (Inl ActionAlreadyPerformed, st1)
             else
               let proof = generateZkProofData sha256 now identity action topic
               in case addNullifier actionNullifierHash action topic st1 of
                    (Inl e, st2) \<Rightarrow> (Inl e, st2)
                  | (Inr u, st2) \<Rightarrow>
                      (Inr \<lparr>zkp_proof = proof,
                            zkp_publicSignals =
                              [zid_commitment identity, actionNullifierHash, topic],
                            zkp_nullifierHash = actionNullifierHash\<rparr>, st2))"

text \<open>
  \<^verbatim>\<open>generateProof\<close> with its \<^verbatim>\<open>catch\<close> (lines 77 to 80): whatever was thrown inside
  is logged and replaced by \<^verbatim>\<open>Error('Failed to generate ZK proof')\<close>.
\<close>

definition generateProof ::
    "(string \<Rightarrow> string) \<Rightarrow> nat \<Rightarrow> ZKIdentityData \<Rightarrow> string \<Rightarrow> string \<Rightarrow> storage
     \<Rightarrow> (error + ZKProof) \<times> storage" where
  "generateProof sha256 now identity action topic st =
     (case generateProof_try sha256 now identity action topic st of
        (Inl e, st') \<Rightarrow> (Inl FailedToGenerateProof, st')
      | (Inr p, st') \<Rightarrow> (Inr p, st'))"

text \<open>\<^verbatim>\<open>String.prototype.startsWith\<close>.\<close>

definition startsWith :: "string \<Rightarrow> string \<Rightarrow> bool" where
  "startsWith s p \<longleftrightarrow> take (length p) s = p"

text \<open>
  \<^verbatim>\<open>verifyProof\<close> (lines 83 to 118). A string is falsy when it is empty; an array is
  always truthy, so \<^verbatim>\<open>!proof.publicSignals\<close> never holds for a value of the declared
  type. \<^verbatim>\<open>const [commitment] = proof.publicSignals\<close> reads element 0, which exists
  once the length is 3. The storage is threaded through the two queries.
\<close>

definition verifyProof :: "ZKProof \<Rightarrow> string \<Rightarrow> string \<Rightarrow> storage \<Rightarrow> bool \<times> storage" where
  "verifyProof p action topic st =
     (if zkp_proof p = [] \<or> zkp_nullifierHash p = [] then (False, st)
      else if length (zkp_publicSignals p) \<noteq> 3 then (False, st)
      else if \<not> startsWith (zkp_nullifierHash p) ''0x'' \<or> length (zkp_nullifierHash p) \<noteq> 66
        then (False, st)
      else case checkNullifierUsed (zkp_nullifierHash p) action topic st of
        (alreadyUsed, st1) \<Rightarrow>
          if alreadyUsed then (False, st1)
          else case getZkIdentityByCommitment (zkp_publicSignals p ! 0) st1 of
            (identity, st2) \<Rightarrow>
              (case identity of
                 None \<Rightarrow> (False, st2)
               | Some i \<Rightarrow> if \<not> zk_isValid i then (False, st2) else (True, st2)))"

text \<open>\<^verbatim>\<open>verifyIdentity\<close> (lines 120 to 128).\<close>

definition verifyIdentity :: "string \<Rightarrow> storage \<Rightarrow> bool \<times> storage" where
  "verifyIdentity commitment st =
     (case getZkIdentityByCommitment commitment st of
        (identity, st1) \<Rightarrow>
          (case identity of None \<Rightarrow> (False, st1) | Some i \<Rightarrow> (zk_isValid i, st1)))"

section \<open>Two calls of generateProof in flight\<close>

text \<open>
  An \<^verbatim>\<open>async\<close> call gives up control at each \<^verbatim>\<open>await\<close>. The awaits of
  \<^verbatim>\<open>generateProof\<close> that reach the store are \<^verbatim>\<open>storage.checkNullifierUsed\<close> and
  \<^verbatim>\<open>storage.addNullifier\<close>, so a call in flight stands before one of them or is settled;
  \<^verbatim>\<open>generateZkProofData\<close> between them reads the clock only. \<open>stepCall\<close> runs one call
  up to its next storage await, with the \<^verbatim>\<open>catch\<close> of \<^verbatim>\<open>generateProof\<close> applied to
  what is thrown. Each storage operation is one atomic step, as section 6 of the
  specification gives it.
\<close>

datatype call = AtCheck | AtInsert | Settled "error + ZKProof"

fun stepCall ::
    "(string \<Rightarrow> string) \<Rightarrow> nat \<Rightarrow> ZKIdentityData \<Rightarrow> string \<Rightarrow> string \<Rightarrow> call \<Rightarrow> storage
     \<Rightarrow> call \<times> storage" where
  "stepCall sha256 now identity action topic AtCheck st =
     (case checkNullifierUsed
             (generateActionNullifierHash sha256 (zid_nullifier identity) action topic)
             action topic st of
        (alreadyUsed, st1) \<Rightarrow>
          if alreadyUsed then (Settled (Inl FailedToGenerateProof), st1)
          else (AtInsert, st1))"
| "stepCall sha256 now identity action topic AtInsert st =
     (case addNullifier
             (generateActionNullifierHash sha256 (zid_nullifier identity) action topic)
             action topic st of
        (Inl e, st2) \<Rightarrow> (Settled (Inl FailedToGenerateProof), st2)
      | (Inr u, st2) \<Rightarrow>
          (Settled (Inr \<lparr>zkp_proof = generateZkProofData sha256 now identity action topic,
                zkp_publicSignals =
                  [zid_commitment identity,
                   generateActionNullifierHash sha256 (zid_nullifier identity) action topic,
                   topic],
                zkp_nullifierHash =
                  generateActionNullifierHash sha256 (zid_nullifier identity) action topic\<rparr>),
           st2))"
| "stepCall sha256 now identity action topic (Settled r) st = (Settled r, st)"

text \<open>
  Two calls with the same identity, action and topic, interleaved by a schedule: \<open>True\<close>
  moves the first call, \<open>False\<close> the second. \<open>nowA\<close> and \<open>nowB\<close> are the clock
  readings of the two calls. A move of a settled call changes nothing.
\<close>

fun runCalls ::
    "(string \<Rightarrow> string) \<Rightarrow> nat \<Rightarrow> nat \<Rightarrow> ZKIdentityData \<Rightarrow> string \<Rightarrow> string \<Rightarrow> bool list
     \<Rightarrow> call \<times> call \<times> storage \<Rightarrow> call \<times> call \<times> storage" where
  "runCalls sha256 nowA nowB identity action topic [] cfg = cfg"
| "runCalls sha256 nowA nowB identity action topic (b # bs) (ca, cb, st) =
     (if b
      then case stepCall sha256 nowA identity action topic ca st of
             (ca', st') \<Rightarrow> runCalls sha256 nowA nowB identity action topic bs (ca', cb, st')
      else case stepCall sha256 nowB identity action topic cb st of
             (cb', st') \<Rightarrow> runCalls sha256 nowA nowB identity action topic bs (ca, cb', st'))"

text \<open>
  The same step and the same interleaving with the \<^verbatim>\<open>catch\<close> left off: a call that
  fails is settled with the error thrown inside the \<^verbatim>\<open>try\<close> block, the one the
  \<^verbatim>\<open>catch\<close> logs. \<open>catchCall\<close> is the \<^verbatim>\<open>catch\<close> on a settled call.
\<close>

fun stepCall_try ::
    "(string \<Rightarrow> string) \<Rightarrow> nat \<Rightarrow> ZKIdentityData \<Rightarrow> string \<Rightarrow> string \<Rightarrow> call \<Rightarrow> storage
     \<Rightarrow> call \<times> storage" where
  "stepCall_try sha256 now identity action topic AtCheck st =
     (case checkNullifierUsed
             (generateActionNullifierHash sha256 (zid_nullifier identity) action topic)
             action topic st of
        (alreadyUsed, st1) \<Rightarrow>
          if alreadyUsed then (Settled (Inl ActionAlreadyPerformed), st1)
          else (AtInsert, st1))"
| "stepCall_try sha256 now identity action topic AtInsert st =
     (case addNullifier
             (generateActionNullifierHash sha256 (zid_nullifier identity) action topic)
             action topic st of
        (Inl e, st2) \<Rightarrow> (Settled (Inl e), st2)
      | (Inr u, st2) \<Rightarrow>
          (Settled (Inr \<lparr>zkp_proof = generateZkProofData sha256 now identity action topic,
                zkp_publicSignals =
                  [zid_commitment identity,
                   generateActionNullifierHash sha256 (zid_nullifier identity) action topic,
                   topic],
                zkp_nullifierHash =
                  generateActionNullifierHash sha256 (zid_nullifier identity) action topic\<rparr>),
           st2))"
| "stepCall_try sha256 now identity action topic (Settled r) st = (Settled r, st)"

fun runCalls_try ::
    "(string \<Rightarrow> string) \<Rightarrow> nat \<Rightarrow> nat \<Rightarrow> ZKIdentityData \<Rightarrow> string \<Rightarrow> string \<Rightarrow> bool list
     \<Rightarrow> call \<times> call \<times> storage \<Rightarrow> call \<times> call \<times> storage" where
  "runCalls_try sha256 nowA nowB identity action topic [] cfg = cfg"
| "runCalls_try sha256 nowA nowB identity action topic (b # bs) (ca, cb, st) =
     (if b
      then case stepCall_try sha256 nowA identity action topic ca st of
             (ca', st') \<Rightarrow> runCalls_try sha256 nowA nowB identity action topic bs (ca', cb, st')
      else case stepCall_try sha256 nowB identity action topic cb st of
             (cb', st') \<Rightarrow> runCalls_try sha256 nowA nowB identity action topic bs (ca, cb', st'))"

fun catchCall :: "call \<Rightarrow> call" where
  "catchCall (Settled (Inl e)) = Settled (Inl FailedToGenerateProof)"
| "catchCall c = c"

text \<open>How far a call has come: the number of storage awaits behind it.\<close>

fun callRank :: "call \<Rightarrow> nat" where
  "callRank AtCheck = 0"
| "callRank AtInsert = 1"
| "callRank (Settled r) = 2"

text \<open>
  Which call is the first to reach its insert under a schedule; \<open>ra\<close> and \<open>rb\<close> count
  the storage steps the two calls have behind them.
\<close>

fun firstToInsert :: "nat \<Rightarrow> nat \<Rightarrow> bool list \<Rightarrow> bool option" where
  "firstToInsert ra rb [] = None"
| "firstToInsert ra rb (b # bs) =
     (if b then (if ra = 1 then Some True else firstToInsert (Suc ra) rb bs)
      else (if rb = 1 then Some False else firstToInsert ra (Suc rb) bs))"

text \<open>
  The artifact a call returns and the store after its insert, and the invariant of two
  racing calls that start on the store \<open>st\<close>: either nobody has inserted yet, or exactly
  one call has, it is settled with its artifact, and the other is still in flight or has
  failed.
\<close>

definition issuedArtifact ::
    "(string \<Rightarrow> string) \<Rightarrow> nat \<Rightarrow> ZKIdentityData \<Rightarrow> string \<Rightarrow> string \<Rightarrow> ZKProof" where
  "issuedArtifact sha256 now identity action topic =
     \<lparr>zkp_proof = generateZkProofData sha256 now identity action topic,
      zkp_publicSignals =
        [zid_commitment identity,
         generateActionNullifierHash sha256 (zid_nullifier identity) action topic, topic],
      zkp_nullifierHash =
        generateActionNullifierHash sha256 (zid_nullifier identity) action topic\<rparr>"

definition recorded :: "string \<Rightarrow> string \<Rightarrow> string \<Rightarrow> storage \<Rightarrow> storage" where
  "recorded h action topic st =
     st\<lparr>nullifierTracker := nullifierTracker st @
          [\<lparr>nt_nullifierHash = h, nt_action = action, nt_topic = topic\<rparr>]\<rparr>"

definition raceInv ::
    "(string \<Rightarrow> string) \<Rightarrow> nat \<Rightarrow> nat \<Rightarrow> ZKIdentityData \<Rightarrow> string \<Rightarrow> string \<Rightarrow> storage
     \<Rightarrow> call \<times> call \<times> storage \<Rightarrow> bool" where
  "raceInv sha256 nowA nowB identity action topic st cfg =
     (case cfg of (ca, cb, s) \<Rightarrow>
        (s = st \<and> ca \<in> {AtCheck, AtInsert} \<and> cb \<in> {AtCheck, AtInsert}) \<or>
        (s = recorded (generateActionNullifierHash sha256 (zid_nullifier identity) action topic)
               action topic st \<and>
         ca = Settled (Inr (issuedArtifact sha256 nowA identity action topic)) \<and>
         cb \<in> {AtCheck, AtInsert, Settled (Inl FailedToGenerateProof)}) \<or>
        (s = recorded (generateActionNullifierHash sha256 (zid_nullifier identity) action topic)
               action topic st \<and>
         cb = Settled (Inr (issuedArtifact sha256 nowB identity action topic)) \<and>
         ca \<in> {AtCheck, AtInsert, Settled (Inl FailedToGenerateProof)}))"

section \<open>EncryptionService\<close>

text \<open>
  \<^verbatim>\<open>EncryptedData\<close> and \<^verbatim>\<open>DecryptedData\<close>, with the prefixes \<open>enc_\<close> and \<open>dec_\<close>, and
  the errors the three \<^verbatim>\<open>catch\<close> blocks rethrow: \<^verbatim>\<open>Error('Failed to encrypt data')\<close>,
  \<^verbatim>\<open>Error('Failed to decrypt data')\<close> and \<^verbatim>\<open>Error('Failed to decrypt client data')\<close>.

  The \<^verbatim>\<open>crypto\<close> module, \<^verbatim>\<open>JSON\<close> and \<^verbatim>\<open>Buffer\<close>'s base64 codec belong to the runtime
  and are arguments. Buffers are character lists (a character is a byte).
  \<open>randomBytes crypto n\<close> is what the call \<^verbatim>\<open>crypto.randomBytes(n)\<close> draws. A member of
  the module that the service calls is \<open>None\<close> when the module has no such property: the
  call then throws a TypeError inside the \<^verbatim>\<open>try\<close> block. When present,
  \<open>createCipherGCM\<close> takes algorithm, key, iv, associated data and plaintext to the
  hexadecimal ciphertext (\<^verbatim>\<open>update\<close> then \<^verbatim>\<open>final\<close>) and the tag, and
  \<open>createDecipherGCM\<close> takes algorithm, key, iv, associated data, tag and hexadecimal
  ciphertext to the plaintext; either gives \<open>None\<close> when it throws.
\<close>

record EncryptedData =
  enc_encryptedContent :: string
  enc_iv :: string
  enc_authTag :: string
  enc_key :: string

record DecryptedData =
  dec_content :: string

datatype encryptionError = FailedToEncrypt | FailedToDecrypt | FailedToDecryptClient

record cryptoModule =
  randomBytes :: "nat \<Rightarrow> string"
  createCipherGCM ::
    "(string \<Rightarrow> string \<Rightarrow> string \<Rightarrow> string \<Rightarrow> string \<Rightarrow> (string \<times> string) option) option"
  createDecipherGCM ::
    "(string \<Rightarrow> string \<Rightarrow> string \<Rightarrow> string \<Rightarrow> string \<Rightarrow> string \<Rightarrow> string option) option"

record 'a jsonRuntime =
  stringifyPayload :: "'a \<Rightarrow> string"
  parsePayload :: "string \<Rightarrow> 'a option"
  stringifyEncrypted :: "EncryptedData \<Rightarrow> string"
  parseEncrypted :: "string \<Rightarrow> EncryptedData option"
  toBase64 :: "string \<Rightarrow> string"
  fromBase64 :: "string \<Rightarrow> string"

text \<open>
  \<^verbatim>\<open>buffer.toString('hex')\<close> and \<^verbatim>\<open>Buffer.from(s, 'hex')\<close>; the latter stops at the
  first pair that is not two hexadecimal digits and drops a trailing single digit.
\<close>

definition hexDigit :: "nat \<Rightarrow> char" where
  "hexDigit n = ''0123456789abcdef'' ! n"

definition toHex :: "string \<Rightarrow> string" where
  "toHex bs = concat (map (\<lambda>c. [hexDigit (of_char c div 16), hexDigit (of_char c mod 16)]) bs)"

definition hexValue :: "char \<Rightarrow> nat option" where
  "hexValue c =
     (let n = (of_char c :: nat)
      in if 48 \<le> n \<and> n \<le> 57 then Some (n - 48)
         else if 97 \<le> n \<and> n \<le> 102 then Some (n - 87)
         else if 65 \<le> n \<and> n \<le> 70 then Some (n - 55)
         else None)"

fun fromHex :: "string \<Rightarrow> string" where
  "fromHex (a # b # rest) =
     (case hexValue a of
        None \<Rightarrow> []
      | Some x \<Rightarrow>
          (case hexValue b of
             None \<Rightarrow> []
           | Some y \<Rightarrow> char_of (16 * x + y) # fromHex rest))"
| "fromHex [a] = []"
| "fromHex [] = []"

text \<open>
  \<^verbatim>\<open>encrypt\<close>, \<^verbatim>\<open>decrypt\<close>, \<^verbatim>\<open>encryptForClient\<close> and \<^verbatim>\<open>decryptFromClient\<close>. The optional
  \<^verbatim>\<open>key\<close> is falsy when it is absent or empty. \<^verbatim>\<open>encryptForClient\<close> has no
  \<^verbatim>\<open>try\<close> of its own: an error of \<^verbatim>\<open>encrypt\<close> passes through.
\<close>

definition encrypt :: "cryptoModule \<Rightarrow> string \<Rightarrow> string option \<Rightarrow> encryptionError + EncryptedData" where
  "encrypt crypto plaintext key =
     (let encryptionKey =
            (case key of
               None \<Rightarrow> randomBytes crypto 32
             | Some k \<Rightarrow> if k = [] then randomBytes crypto 32 else fromHex k);
          iv = randomBytes crypto 16
      in case createCipherGCM crypto of
           None \<Rightarrow> Inl FailedToEncrypt
         | Some cipher \<Rightarrow>
             (case cipher ''aes-256-gcm'' encryptionKey iv ''speaksecure-auth'' plaintext of
                None \<Rightarrow> Inl FailedToEncrypt
              | Some (encrypted, authTag) \<Rightarrow>
                  Inr \<lparr>enc_encryptedContent = encrypted, enc_iv = toHex iv,
                        enc_authTag = toHex authTag, enc_key = toHex encryptionKey\<rparr>))"

definition decrypt :: "cryptoModule \<Rightarrow> EncryptedData \<Rightarrow> encryptionError + DecryptedData" where
  "decrypt crypto encryptedData =
     (let key = fromHex (enc_key encryptedData);
          iv = fromHex (enc_iv encryptedData);
          authTag = fromHex (enc_authTag encryptedData)
      in case createDecipherGCM crypto of
           None \<Rightarrow> Inl FailedToDecrypt
         | Some decipher \<Rightarrow>
             (case decipher ''aes-256-gcm'' key iv ''speaksecure-auth'' authTag
                     (enc_encryptedContent encryptedData) of
                None \<Rightarrow> Inl FailedToDecrypt
              | Some decrypted \<Rightarrow> Inr \<lparr>dec_content = decrypted\<rparr>))"

definition encryptForClient ::
    "cryptoModule \<Rightarrow> 'a jsonRuntime \<Rightarrow> 'a \<Rightarrow> encryptionError + string" where
  "encryptForClient crypto js data =
     (let jsonString = stringifyPayload js data
      in case encrypt crypto jsonString None of
           Inl e \<Rightarrow> Inl e
         | Inr encrypted \<Rightarrow> Inr (toBase64 js (stringifyEncrypted js encrypted)))"

definition decryptFromClient ::
    "cryptoModule \<Rightarrow> 'a jsonRuntime \<Rightarrow> string \<Rightarrow> encryptionError + 'a" where
  "decryptFromClient crypto js encryptedString =
     (case parseEncrypted js (fromBase64 js encryptedString) of
        None \<Rightarrow> Inl FailedToDecryptClient
      | Some encryptedData \<Rightarrow>
          (case decrypt crypto encryptedData of
             Inl e \<Rightarrow> Inl FailedToDecryptClient
           | Inr decrypted \<Rightarrow>
               (case parsePayload js (dec_content decrypted) of
                  None \<Rightarrow> Inl FailedToDecryptClient
                | Some data \<Rightarrow> Inr data)))"

section \<open>Concrete inputs\<close>

text \<open>
  The closed theorems below run the service on the scenario of the specification:
  an identity issued for group g1 on an empty store, then the action upvote on the topic
  REF-001. \<open>padDigest\<close> stands in for the runtime's digest there: it pads or cuts its
  input to 64 characters. The general theorems hold for every digest function.
\<close>

definition padDigest :: "string \<Rightarrow> string" where
  "padDigest s = take 64 (s @ replicate 64 (CHR ''0''))"

definition emptyStorage :: storage where
  "emptyStorage = \<lparr>zkIdentities = [], nullifierTracker = []\<rparr>"

definition exIdentity :: ZKIdentityData where
  "exIdentity =
     \<lparr>zid_commitment = generateCommitment padDigest ''0x01'' ''0x02'',
      zid_nullifierHash = generateNullifierHash padDigest ''0x02'' ''g1'',
      zid_trapdoor = ''0x01'', zid_nullifier = ''0x02'', zid_groupId = ''g1''\<rparr>"

definition exStorage :: storage where
  "exStorage =
     \<lparr>zkIdentities =
        [\<lparr>zk_commitment = generateCommitment padDigest ''0x01'' ''0x02'',
          zk_nullifierHash = generateNullifierHash padDigest ''0x02'' ''g1'',
          zk_groupId = ''g1'', zk_isValid = True\<rparr>],
      nullifierTracker = []\<rparr>"

definition exArtifact :: ZKProof where
  "exArtifact =
     \<lparr>zkp_proof = generateZkProofData padDigest 0 exIdentity ''upvote'' ''REF-001'',
      zkp_publicSignals =
        [generateCommitment padDigest ''0x01'' ''0x02'',
         generateActionNullifierHash padDigest ''0x02'' ''upvote'' ''REF-001'',
         ''REF-001''],
      zkp_nullifierHash =
        generateActionNullifierHash padDigest ''0x02'' ''upvote'' ''REF-001''\<rparr>"

definition exStorageIssued :: storage where
  "exStorageIssued =
     exStorage\<lparr>nullifierTracker :=
       [\<lparr>nt_nullifierHash =
           generateActionNullifierHash padDigest ''0x02'' ''upvote'' ''REF-001'',
         nt_action = ''upvote'', nt_topic = ''REF-001''\<rparr>]\<rparr>"

text \<open>
  The store after the identity has been issued a proof for the action ab on the topic c.
\<close>

definition exStorageAliased :: storage where
  "exStorageAliased =
     exStorage\<lparr>nullifierTracker :=
       [\<lparr>nt_nullifierHash = generateActionNullifierHash padDigest ''0x02'' ''ab'' ''c'',
         nt_action = ''ab'', nt_topic = ''c''\<rparr>]\<rparr>"

text \<open>
  Artifacts nobody issued, for the closed theorems on the structural test. \<open>forgedMismatch\<close>
  has a well-formed hexadecimal nullifier hash that is not element 1 of its public
  signals; \<open>forgedNonHex\<close> has a nullifier hash of 66 characters after which no
  hexadecimal digit follows the prefix.
\<close>

definition forgedMismatch :: ZKProof where
  "forgedMismatch =
     \<lparr>zkp_proof = ''0xabc'',
      zkp_publicSignals = [generateCommitment padDigest ''0x01'' ''0x02'', ''upvote'', ''REF-001''],
      zkp_nullifierHash =
        ''0x0000000000000000000000000000000000000000000000000000000000000000''\<rparr>"

definition forgedNonHex :: ZKProof where
  "forgedNonHex =
     \<lparr>zkp_proof = ''0xabc'',
      zkp_publicSignals =
        [generateCommitment padDigest ''0x01'' ''0x02'',
         ''0xzzzzzzzzzzzzzzzzzzzzzzzzzzzzzzzzzzzzzzzzzzzzzzzzzzzzzzzzzzzzzzzz'',
         ''REF-001''],
      zkp_nullifierHash =
        ''0xzzzzzzzzzzzzzzzzzzzzzzzzzzzzzzzzzzzzzzzzzzzzzzzzzzzzzzzzzzzzzzzz''\<rparr>"

definition exStorageRevoked :: storage where
  "exStorageRevoked =
     \<lparr>zkIdentities =
        [\<lparr>zk_commitment = generateCommitment padDigest ''0x01'' ''0x02'',
          zk_nullifierHash = generateNullifierHash padDigest ''0x02'' ''g1'',
          zk_groupId = ''g1'', zk_isValid = False\<rparr>],
      nullifierTracker = []\<rparr>"

text \<open>
  The \<^verbatim>\<open>crypto\<close> module of Node.js as far as EncryptionService reads it.
  \<^verbatim>\<open>randomBytes\<close> is there (the bytes drawn are fixed for the example); the module has no
  property \<^verbatim>\<open>createCipherGCM\<close> or \<^verbatim>\<open>createDecipherGCM\<close>: Node.js makes its GCM ciphers
  with \<^verbatim>\<open>createCipheriv\<close> and \<^verbatim>\<open>createDecipheriv\<close>.
\<close>

definition nodeCrypto :: cryptoModule where
  "nodeCrypto =
     \<lparr>randomBytes = (\<lambda>n. replicate n (CHR 0x2A)),
      createCipherGCM = None,
      createDecipherGCM = None\<rparr>"

section \<open>Facts about the storage layer\<close>

lemma checkNullifierUsed_state: "snd (checkNullifierUsed h a t st) = st"
  by (simp add: checkNullifierUsed_def)

lemma getZkIdentityByCommitment_state: "snd (getZkIdentityByCommitment c st) = st"
  by (simp add: getZkIdentityByCommitment_def)

lemma checkNullifierUsed_iff:
  "fst (checkNullifierUsed h a t st) \<longleftrightarrow>
   (\<exists>e \<in> set (nullifierTracker st).
      nt_nullifierHash e = h \<and> nt_action e = a \<and> nt_topic e = t)"
  by (simp add: checkNullifierUsed_def list_ex_iff)

lemma checkNullifierUsed_hash:
  "fst (checkNullifierUsed h a t st) \<Longrightarrow> h \<in> nt_nullifierHash ` set (nullifierTracker st)"
  by (force simp: checkNullifierUsed_iff)

lemma addNullifier_fresh:
  "h \<notin> nt_nullifierHash ` set (nullifierTracker st) \<Longrightarrow>
   addNullifier h a t st =
     (Inr (), st\<lparr>nullifierTracker := nullifierTracker st @
                  [\<lparr>nt_nullifierHash = h, nt_action = a, nt_topic = t\<rparr>]\<rparr>)"
  by (auto simp: addNullifier_def list_ex_iff)

lemma addNullifier_duplicate:
  "h \<in> nt_nullifierHash ` set (nullifierTracker st) \<Longrightarrow>
   addNullifier h a t st = (Inl DuplicateNullifier, st)"
  by (auto simp: addNullifier_def list_ex_iff)

lemma generateProof_try_fresh:
  assumes "generateActionNullifierHash sha256 (zid_nullifier identity) action topic
           \<notin> nt_nullifierHash ` set (nullifierTracker st)"
  shows "generateProof_try sha256 now identity action topic st =
    (Inr \<lparr>zkp_proof = generateZkProofData sha256 now identity action topic,
          zkp_publicSignals =
            [zid_commitment identity,
             generateActionNullifierHash sha256 (zid_nullifier identity) action topic, topic],
          zkp_nullifierHash =
            generateActionNullifierHash sha256 (zid_nullifier identity) action topic\<rparr>,
     st\<lparr>nullifierTracker := nullifierTracker st @
          [\<lparr>nt_nullifierHash =
              generateActionNullifierHash sha256 (zid_nullifier identity) action topic,
            nt_action = action, nt_topic = topic\<rparr>]\<rparr>)"
proof -
  let ?h = "generateActionNullifierHash sha256 (zid_nullifier identity) action topic"
  have unused: "checkNullifierUsed ?h action topic st = (False, st)"
    using assms checkNullifierUsed_hash [of ?h action topic st]
    by (cases "checkNullifierUsed ?h action topic st")
       (auto simp: checkNullifierUsed_def)
  show ?thesis
    by (simp add: generateProof_try_def Let_def unused addNullifier_fresh [OF assms])
qed

lemma generateProof_try_used:
  assumes "fst (checkNullifierUsed
             (generateActionNullifierHash sha256 (zid_nullifier identity) action topic)
             action topic st)"
  shows "generateProof_try sha256 now identity action topic st = (Inl ActionAlreadyPerformed, st)"
  using assms
  by (simp add: generateProof_try_def Let_def checkNullifierUsed_def)

lemma generateProof_fresh:
  assumes "generateActionNullifierHash sha256 (zid_nullifier identity) action topic
           \<notin> nt_nullifierHash ` set (nullifierTracker st)"
  shows "generateProof sha256 now identity action topic st =
    (Inr \<lparr>zkp_proof = generateZkProofData sha256 now identity action topic,
          zkp_publicSignals =
            [zid_commitment identity,
             generateActionNullifierHash sha256 (zid_nullifier identity) action topic, topic],
          zkp_nullifierHash =
            generateActionNullifierHash sha256 (zid_nullifier identity) action topic\<rparr>,
     st\<lparr>nullifierTracker := nullifierTracker st @
          [\<lparr>nt_nullifierHash =
              generateActionNullifierHash sha256 (zid_nullifier identity) action topic,
            nt_action = action, nt_topic = topic\<rparr>]\<rparr>)"
  by (simp add: generateProof_def generateProof_try_fresh [OF assms])

lemma generateProof_used:
  assumes "fst (checkNullifierUsed
             (generateActionNullifierHash sha256 (zid_nullifier identity) action topic)
             action topic st)"
  shows "generateProof sha256 now identity action topic st = (Inl FailedToGenerateProof, st)"
  by (simp add: generateProof_def generateProof_try_used [OF assms])

text \<open>What a successful \<^verbatim>\<open>generateProof\<close> has done: the hash was not in the ledger, the
  entry for (hash, action, topic) is the ledger's last, and the artifact carries the hash.\<close>

lemma generateProof_Inr_D:
  assumes "generateProof sha256 now identity action topic st = (Inr p, st')"
  shows "zkp_nullifierHash p =
           generateActionNullifierHash sha256 (zid_nullifier identity) action topic"
    and "st' = st\<lparr>nullifierTracker := nullifierTracker st @
           [\<lparr>nt_nullifierHash = zkp_nullifierHash p, nt_action = action,
             nt_topic = topic\<rparr>]\<rparr>"
    and "zkp_nullifierHash p \<notin> nt_nullifierHash ` set (nullifierTracker st)"
proof -
  let ?h = "generateActionNullifierHash sha256 (zid_nullifier identity) action topic"
  have fresh: "?h \<notin> nt_nullifierHash ` set (nullifierTracker st)"
  proof
    assume "?h \<in> nt_nullifierHash ` set (nullifierTracker st)"
    then have dup: "addNullifier ?h action topic st = (Inl DuplicateNullifier, st)"
      by (rule addNullifier_duplicate)
    have "fst (generateProof sha256 now identity action topic st) = Inl FailedToGenerateProof"
      by (simp add: generateProof_def generateProof_try_def Let_def checkNullifierUsed_def dup)
    with assms show False by simp
  qed
  from generateProof_fresh [OF fresh, of now] assms
  show "zkp_nullifierHash p = ?h"
    and "st' = st\<lparr>nullifierTracker := nullifierTracker st @
           [\<lparr>nt_nullifierHash = zkp_nullifierHash p, nt_action = action,
             nt_topic = topic\<rparr>]\<rparr>"
    by auto
  with fresh show "zkp_nullifierHash p \<notin> nt_nullifierHash ` set (nullifierTracker st)"
    by simp
qed

lemma checkNullifierUsed_after_add:
  "checkNullifierUsed h a t
     (st\<lparr>nullifierTracker := nullifierTracker st @
          [\<lparr>nt_nullifierHash = h, nt_action = a, nt_topic = t\<rparr>]\<rparr>) =
   (True, st\<lparr>nullifierTracker := nullifierTracker st @
          [\<lparr>nt_nullifierHash = h, nt_action = a, nt_topic = t\<rparr>]\<rparr>)"
  by (simp add: checkNullifierUsed_def list_ex_iff)

lemma length_padDigest: "length (padDigest s) = 64"
  by (simp add: padDigest_def)

lemma exIdentity_issued:
  "generateIdentity padDigest ''0x01'' ''0x02'' ''g1'' emptyStorage = (Inr exIdentity, exStorage)"
  by (simp add: generateIdentity_def createZkIdentity_def emptyStorage_def exIdentity_def
      exStorage_def Let_def)

lemma exArtifact_issued:
  "generateProof padDigest 0 exIdentity ''upvote'' ''REF-001'' exStorage =
     (Inr exArtifact, exStorageIssued)"
proof -
  have "generateActionNullifierHash padDigest (zid_nullifier exIdentity) ''upvote'' ''REF-001''
        \<notin> nt_nullifierHash ` set (nullifierTracker exStorage)"
    by (simp add: exStorage_def)
  from generateProof_fresh [OF this, of 0]
  show ?thesis
    by (simp add: exArtifact_def exStorageIssued_def exIdentity_def exStorage_def)
qed

lemma exArtifact_well_formed:
  "zkp_proof exArtifact \<noteq> []"
  "length (zkp_publicSignals exArtifact) = 3"
  "startsWith (zkp_nullifierHash exArtifact) ''0x''"
  "length (zkp_nullifierHash exArtifact) = 66"
  by (simp_all add: exArtifact_def generateZkProofData_def generateActionNullifierHash_def
      startsWith_def length_padDigest)

section \<open>Facts about two calls in flight\<close>

text \<open>A call that runs alone, both steps one after the other, is \<^verbatim>\<open>generateProof\<close>.\<close>

lemma stepCall_alone:
  "(case stepCall sha256 now identity action topic AtCheck st of
      (c, st1) \<Rightarrow> stepCall sha256 now identity action topic c st1) =
   (Settled (fst (generateProof sha256 now identity action topic st)),
    snd (generateProof sha256 now identity action topic st))"
  by (simp add: generateProof_def generateProof_try_def Let_def checkNullifierUsed_def
      split: prod.splits sum.splits)

lemma stepCall_rank:
  "min 2 (Suc (callRank c)) \<le> callRank (fst (stepCall sha256 now identity action topic c st))"
  by (cases c) (auto split: prod.splits sum.splits)

lemma runCalls_rank:
  "runCalls sha256 nowA nowB identity action topic sched (ca, cb, st) = (ca', cb', st') \<Longrightarrow>
   min 2 (callRank ca + count_list sched True) \<le> callRank ca' \<and>
   min 2 (callRank cb + count_list sched False) \<le> callRank cb'"
proof (induction sched arbitrary: ca cb st)
  case Nil
  then show ?case by simp
next
  case (Cons b bs)
  show ?case
  proof (cases b)
    case True
    obtain c1 s1 where step: "stepCall sha256 nowA identity action topic ca st = (c1, s1)"
      by (cases "stepCall sha256 nowA identity action topic ca st")
    with Cons.prems True
    have "runCalls sha256 nowA nowB identity action topic bs (c1, cb, s1) = (ca', cb', st')"
      by simp
    from Cons.IH [OF this]
    have ih: "min 2 (callRank c1 + count_list bs True) \<le> callRank ca'"
      "min 2 (callRank cb + count_list bs False) \<le> callRank cb'"
      by simp_all
    from stepCall_rank [of ca sha256 nowA identity action topic st] step
    have "min 2 (Suc (callRank ca)) \<le> callRank c1" by simp
    with ih True show ?thesis by auto
  next
    case False
    obtain c1 s1 where step: "stepCall sha256 nowB identity action topic cb st = (c1, s1)"
      by (cases "stepCall sha256 nowB identity action topic cb st")
    with Cons.prems False
    have "runCalls sha256 nowA nowB identity action topic bs (ca, c1, s1) = (ca', cb', st')"
      by simp
    from Cons.IH [OF this]
    have ih: "min 2 (callRank ca + count_list bs True) \<le> callRank ca'"
      "min 2 (callRank c1 + count_list bs False) \<le> callRank cb'"
      by simp_all
    from stepCall_rank [of cb sha256 nowB identity action topic st] step
    have "min 2 (Suc (callRank cb)) \<le> callRank c1" by simp
    with ih False show ?thesis by auto
  qed
qed

lemma stepCall_fresh:
  assumes "generateActionNullifierHash sha256 (zid_nullifier identity) action topic
           \<notin> nt_nullifierHash ` set (nullifierTracker st)"
  shows "stepCall sha256 now identity action topic AtCheck st = (AtInsert, st)"
    and "stepCall sha256 now identity action topic AtInsert st =
           (Settled (Inr (issuedArtifact sha256 now identity action topic)),
            recorded (generateActionNullifierHash sha256 (zid_nullifier identity) action topic)
              action topic st)"
proof -
  let ?h = "generateActionNullifierHash sha256 (zid_nullifier identity) action topic"
  have "\<not> fst (checkNullifierUsed ?h action topic st)"
    using assms checkNullifierUsed_hash by blast
  then show "stepCall sha256 now identity action topic AtCheck st = (AtInsert, st)"
    by (simp add: checkNullifierUsed_def)
  show "stepCall sha256 now identity action topic AtInsert st =
           (Settled (Inr (issuedArtifact sha256 now identity action topic)),
            recorded ?h action topic st)"
    by (simp add: addNullifier_fresh [OF assms] issuedArtifact_def recorded_def)
qed

lemma stepCall_recorded:
  "stepCall sha256 now identity action topic AtCheck
     (recorded (generateActionNullifierHash sha256 (zid_nullifier identity) action topic)
        action topic st) =
   (Settled (Inl FailedToGenerateProof),
    recorded (generateActionNullifierHash sha256 (zid_nullifier identity) action topic)
        action topic st)"
  "stepCall sha256 now identity action topic AtInsert
     (recorded (generateActionNullifierHash sha256 (zid_nullifier identity) action topic)
        action topic st) =
   (Settled (Inl FailedToGenerateProof),
    recorded (generateActionNullifierHash sha256 (zid_nullifier identity) action topic)
        action topic st)"
proof -
  let ?h = "generateActionNullifierHash sha256 (zid_nullifier identity) action topic"
  have "?h \<in> nt_nullifierHash ` set (nullifierTracker (recorded ?h action topic st))"
    by (simp add: recorded_def)
  from addNullifier_duplicate [OF this]
  show "stepCall sha256 now identity action topic AtInsert (recorded ?h action topic st) =
        (Settled (Inl FailedToGenerateProof), recorded ?h action topic st)"
    by simp
  show "stepCall sha256 now identity action topic AtCheck (recorded ?h action topic st) =
        (Settled (Inl FailedToGenerateProof), recorded ?h action topic st)"
    by (simp add: recorded_def checkNullifierUsed_after_add)
qed

lemma raceInv_step:
  assumes fresh: "generateActionNullifierHash sha256 (zid_nullifier identity) action topic
           \<notin> nt_nullifierHash ` set (nullifierTracker st)"
    and inv: "raceInv sha256 nowA nowB identity action topic st (ca, cb, s)"
  shows "raceInv sha256 nowA nowB identity action topic st
           (fst (stepCall sha256 nowA identity action topic ca s), cb,
            snd (stepCall sha256 nowA identity action topic ca s))"
    and "raceInv sha256 nowA nowB identity action topic st
           (ca, fst (stepCall sha256 nowB identity action topic cb s),
            snd (stepCall sha256 nowB identity action topic cb s))"
  using inv stepCall_fresh [OF fresh] stepCall_recorded [of sha256 _ identity action topic st]
  by (auto simp: raceInv_def)

lemma raceInv_run:
  assumes fresh: "generateActionNullifierHash sha256 (zid_nullifier identity) action topic
           \<notin> nt_nullifierHash ` set (nullifierTracker st)"
  shows "raceInv sha256 nowA nowB identity action topic st cfg \<Longrightarrow>
         raceInv sha256 nowA nowB identity action topic st
           (runCalls sha256 nowA nowB identity action topic sched cfg)"
proof (induction sched arbitrary: cfg)
  case Nil
  then show ?case by simp
next
  case (Cons b bs)
  obtain ca cb s where cfg: "cfg = (ca, cb, s)"
    by (cases cfg)
  from raceInv_step [OF fresh] Cons.prems cfg
  have a: "raceInv sha256 nowA nowB identity action topic st
           (fst (stepCall sha256 nowA identity action topic ca s), cb,
            snd (stepCall sha256 nowA identity action topic ca s))"
    and b: "raceInv sha256 nowA nowB identity action topic st
           (ca, fst (stepCall sha256 nowB identity action topic cb s),
            snd (stepCall sha256 nowB identity action topic cb s))"
    by blast+
  show ?case
    using Cons.IH [OF a] Cons.IH [OF b]
    by (cases b) (auto simp: cfg split: prod.splits)
qed

lemma runCalls_settled_first:
  "runCalls sha256 nowA nowB identity action topic sched (Settled r, cb, s) = (ca', cb', s') \<Longrightarrow>
   ca' = Settled r"
proof (induction sched arbitrary: cb s)
  case Nil
  then show ?case by simp
next
  case (Cons b bs)
  show ?case
  proof (cases b)
    case True
    with Cons.prems
    have "runCalls sha256 nowA nowB identity action topic bs (Settled r, cb, s) = (ca', cb', s')"
      by simp
    then show ?thesis by (rule Cons.IH)
  next
    case False
    obtain c1 s1 where "stepCall sha256 nowB identity action topic cb s = (c1, s1)"
      by (cases "stepCall sha256 nowB identity action topic cb s")
    with Cons.prems False
    have "runCalls sha256 nowA nowB identity action topic bs (Settled r, c1, s1) = (ca', cb', s')"
      by simp
    then show ?thesis by (rule Cons.IH)
  qed
qed

lemma runCalls_settled_second:
  "runCalls sha256 nowA nowB identity action topic sched (ca, Settled r, s) = (ca', cb', s') \<Longrightarrow>
   cb' = Settled r"
proof (induction sched arbitrary: ca s)
  case Nil
  then show ?case by simp
next
  case (Cons b bs)
  show ?case
  proof (cases b)
    case False
    with Cons.prems
    have "runCalls sha256 nowA nowB identity action topic bs (ca, Settled r, s) = (ca', cb', s')"
      by simp
    then show ?thesis by (rule Cons.IH)
  next
    case True
    obtain c1 s1 where "stepCall sha256 nowA identity action topic ca s = (c1, s1)"
      by (cases "stepCall sha256 nowA identity action topic ca s")
    with Cons.prems True
    have "runCalls sha256 nowA nowB identity action topic bs (c1, Settled r, s1) = (ca', cb', s')"
      by simp
    then show ?thesis by (rule Cons.IH)
  qed
qed

lemma first_to_insert_wins:
  assumes fresh: "generateActionNullifierHash sha256 (zid_nullifier identity) action topic
           \<notin> nt_nullifierHash ` set (nullifierTracker st)"
  shows "ca \<in> {AtCheck, AtInsert} \<Longrightarrow> cb \<in> {AtCheck, AtInsert} \<Longrightarrow>
         runCalls sha256 nowA nowB identity action topic sched (ca, cb, st) = (ca', cb', s') \<Longrightarrow>
         (firstToInsert (callRank ca) (callRank cb) sched = Some True \<longrightarrow>
            ca' = Settled (Inr (issuedArtifact sha256 nowA identity action topic))) \<and>
         (firstToInsert (callRank ca) (callRank cb) sched = Some False \<longrightarrow>
            cb' = Settled (Inr (issuedArtifact sha256 nowB identity action topic)))"
proof (induction sched arbitrary: ca cb)
  case Nil
  then show ?case by simp
next
  case (Cons b bs)
  note step = stepCall_fresh [OF fresh]
  show ?case
  proof (cases b)
    case True
    show ?thesis
    proof (cases "ca = AtInsert")
      case ins: True
      with Cons.prems \<open>b\<close> step(2) [of nowA]
      have "runCalls sha256 nowA nowB identity action topic bs
              (Settled (Inr (issuedArtifact sha256 nowA identity action topic)), cb,
               recorded (generateActionNullifierHash sha256 (zid_nullifier identity) action topic)
                 action topic st) = (ca', cb', s')"
        by (simp del: stepCall.simps)
      from runCalls_settled_first [OF this] ins \<open>b\<close> show ?thesis
        by simp
    next
      case False
      with Cons.prems have chk: "ca = AtCheck" by simp
      with Cons.prems \<open>b\<close> step(1) [of nowA]
      have "runCalls sha256 nowA nowB identity action topic bs (AtInsert, cb, st) = (ca', cb', s')"
        by (simp del: stepCall.simps)
      from Cons.IH [OF _ Cons.prems(2) this] chk \<open>b\<close> show ?thesis
        by simp
    qed
  next
    case False
    show ?thesis
    proof (cases "cb = AtInsert")
      case ins: True
      with Cons.prems \<open>\<not> b\<close> step(2) [of nowB]
      have "runCalls sha256 nowA nowB identity action topic bs
              (ca, Settled (Inr (issuedArtifact sha256 nowB identity action topic)),
               recorded (generateActionNullifierHash sha256 (zid_nullifier identity) action topic)
                 action topic st) = (ca', cb', s')"
        by (simp del: stepCall.simps)
      from runCalls_settled_second [OF this] ins \<open>\<not> b\<close> show ?thesis
        by simp
    next
      case nins: False
      with Cons.prems have chk: "cb = AtCheck" by simp
      with Cons.prems \<open>\<not> b\<close> step(1) [of nowB]
      have "runCalls sha256 nowA nowB identity action topic bs (ca, AtInsert, st) = (ca', cb', s')"
        by (simp del: stepCall.simps)
      from Cons.IH [OF Cons.prems(1) _ this] chk \<open>\<not> b\<close> show ?thesis
        by simp
    qed
  qed
qed

lemma firstToInsert_Some:
  "ra \<le> 1 \<Longrightarrow> rb \<le> 1 \<Longrightarrow> 2 \<le> ra + count_list sched True \<Longrightarrow> 2 \<le> rb + count_list sched False \<Longrightarrow>
   firstToInsert ra rb sched \<noteq> None"
  by (induction sched arbitrary: ra rb) (auto split: if_splits)

lemma raced_checks_example:
  "runCalls padDigest 0 5 exIdentity ''upvote'' ''REF-001'' [True, False, True, False]
     (AtCheck, AtCheck, exStorage) =
   (Settled (Inr exArtifact), Settled (Inl FailedToGenerateProof), exStorageIssued)"
proof -
  have fresh:
    "generateActionNullifierHash padDigest (zid_nullifier exIdentity) ''upvote'' ''REF-001''
       \<notin> nt_nullifierHash ` set (nullifierTracker exStorage)"
    by (simp add: exStorage_def)
  have a: "issuedArtifact padDigest 0 exIdentity ''upvote'' ''REF-001'' = exArtifact"
    by (simp add: issuedArtifact_def exArtifact_def exIdentity_def)
  have r: "recorded
             (generateActionNullifierHash padDigest (zid_nullifier exIdentity) ''upvote'' ''REF-001'')
             ''upvote'' ''REF-001'' exStorage = exStorageIssued"
    by (simp add: recorded_def exStorageIssued_def exStorage_def exIdentity_def)
  have s1: "stepCall padDigest n exIdentity ''upvote'' ''REF-001'' AtCheck exStorage =
              (AtInsert, exStorage)" for n
    by (rule stepCall_fresh(1) [OF fresh])
  have s3: "stepCall padDigest 0 exIdentity ''upvote'' ''REF-001'' AtInsert exStorage =
              (Settled (Inr exArtifact), exStorageIssued)"
    using stepCall_fresh(2) [OF fresh, of 0] by (simp only: a r)
  have s4: "stepCall padDigest 5 exIdentity ''upvote'' ''REF-001'' AtInsert exStorageIssued =
              (Settled (Inl FailedToGenerateProof), exStorageIssued)"
    using stepCall_recorded(2) [of padDigest 5 exIdentity "''upvote''" "''REF-001''" exStorage]
    by (simp only: r)
  show ?thesis
    by (simp add: s1 s3 s4 del: stepCall.simps)
qed

text \<open>
  The two interleavings agree up to the \<^verbatim>\<open>catch\<close>, and a call that runs alone without
  it is the \<^verbatim>\<open>try\<close> block of \<^verbatim>\<open>generateProof\<close>.
\<close>

lemma stepCall_try_alone:
  "(case stepCall_try sha256 now identity action topic AtCheck st of
      (c, st1) \<Rightarrow> stepCall_try sha256 now identity action topic c st1) =
   (Settled (fst (generateProof_try sha256 now identity action topic st)),
    snd (generateProof_try sha256 now identity action topic st))"
  by (simp add: generateProof_try_def Let_def checkNullifierUsed_def
      split: prod.splits sum.splits)

lemma stepCall_catches:
  "stepCall sha256 now identity action topic (catchCall c) st =
   (catchCall (fst (stepCall_try sha256 now identity action topic c st)),
    snd (stepCall_try sha256 now identity action topic c st))"
  by (cases c rule: catchCall.cases) (auto split: prod.splits sum.splits)

lemma runCalls_catches:
  "runCalls sha256 nowA nowB identity action topic sched (catchCall ca, catchCall cb, st) =
   (case runCalls_try sha256 nowA nowB identity action topic sched (ca, cb, st) of
      (ca', cb', st') \<Rightarrow> (catchCall ca', catchCall cb', st'))"
proof (induction sched arbitrary: ca cb st)
  case Nil
  then show ?case by simp
next
  case (Cons b bs)
  show ?case
  proof (cases b)
    case True
    obtain c1 s1 where t: "stepCall_try sha256 nowA identity action topic ca st = (c1, s1)"
      by (cases "stepCall_try sha256 nowA identity action topic ca st")
    with stepCall_catches [of sha256 nowA identity action topic ca st]
    have "stepCall sha256 nowA identity action topic (catchCall ca) st = (catchCall c1, s1)"
      by simp
    with t True Cons.IH [of c1 cb s1] show ?thesis
      by (simp del: stepCall.simps stepCall_try.simps)
  next
    case False
    obtain c1 s1 where t: "stepCall_try sha256 nowB identity action topic cb st = (c1, s1)"
      by (cases "stepCall_try sha256 nowB identity action topic cb st")
    with stepCall_catches [of sha256 nowB identity action topic cb st]
    have "stepCall sha256 nowB identity action topic (catchCall cb) st = (catchCall c1, s1)"
      by simp
    with t False Cons.IH [of ca c1 s1] show ?thesis
      by (simp del: stepCall.simps stepCall_try.simps)
  qed
qed

lemma raced_checks_try_example:
  "runCalls_try padDigest 0 5 exIdentity ''upvote'' ''REF-001'' [True, False, True, False]
     (AtCheck, AtCheck, exStorage) =
   (Settled (Inr exArtifact), Settled (Inl DuplicateNullifier), exStorageIssued)"
  by (simp add: checkNullifierUsed_def addNullifier_def exStorage_def exStorageIssued_def
      exArtifact_def exIdentity_def)

section \<open>Facts about the hexadecimal codec and the missing cipher\<close>

lemma hexValue_hexDigit_all: "\<forall>n \<in> {0..<16}. hexValue (hexDigit n) = Some n"
  by code_simp

lemma hexValue_hexDigit: "n < 16 \<Longrightarrow> hexValue (hexDigit n) = Some n"
  using hexValue_hexDigit_all by simp

lemma fromHex_toHex: "fromHex (toHex bs) = bs"
proof (induction bs)
  case Nil
  then show ?case by (simp add: toHex_def)
next
  case (Cons c bs)
  let ?n = "of_char c :: nat"
  have "?n < 16 * 16"
    using nat_of_char_less_256 [of c] by simp
  then have d: "?n div 16 < 16"
    by (rule less_mult_imp_div_less)
  have m: "?n mod 16 < 16"
    by simp
  have same: "char_of (16 * (?n div 16) + ?n mod 16) = c"
    by simp
  have "toHex (c # bs) = hexDigit (?n div 16) # hexDigit (?n mod 16) # toHex bs"
    by (simp add: toHex_def)
  then show ?case
    using Cons.IH same
    by (simp add: hexValue_hexDigit [OF d] hexValue_hexDigit [OF m] del: mult_div_mod_eq)
qed

lemma encrypt_without_createCipherGCM:
  "createCipherGCM crypto = None \<Longrightarrow> encrypt crypto plaintext key = Inl FailedToEncrypt"
  by (simp add: encrypt_def Let_def)

lemma encryptForClient_without_createCipherGCM:
  "createCipherGCM crypto = None \<Longrightarrow> encryptForClient crypto js data = Inl FailedToEncrypt"
  by (simp add: encryptForClient_def Let_def encrypt_without_createCipherGCM)

lemma decrypt_without_createDecipherGCM:
  "createDecipherGCM crypto = None \<Longrightarrow> decrypt crypto encryptedData = Inl FailedToDecrypt"
  by (simp add: decrypt_def Let_def)

lemma decryptFromClient_without_createDecipherGCM:
  "createDecipherGCM crypto = None \<Longrightarrow>
   decryptFromClient crypto js encryptedString = Inl FailedToDecryptClient"
  by (simp add: decryptFromClient_def decrypt_without_createDecipherGCM split: option.splits)

section \<open>Action nullifier derivation\<close>

text \<open>
  C7. The action nullifier hashes the bare concatenation nullifier + action + topic: for
  every nullifier secret, the pairs (ab, c) and (a, bc) derive the same hash, whatever
  the digest function is.
\<close>

theorem action_nullifier_aliasing:
  "generateActionNullifierHash sha256 n ''ab'' ''c'' =
   generateActionNullifierHash sha256 n ''a'' ''bc''"
  by (simp add: generateActionNullifierHash_def)

section \<open>Issuance\<close>

text \<open>
  C2, as the code has it. For every identity and every (action, topic) whose derived
  nullifier hash is not yet in the ledger, the \<^verbatim>\<open>generateProof\<close> call succeeds and
  returns an artifact; a second call with the same identity, action and topic, at any
  clock reading, returns no artifact and leaves the store as it is: the already-performed
  error is thrown inside, and the \<^verbatim>\<open>catch\<close> hands the caller
  \<^verbatim>\<open>Error('Failed to generate ZK proof')\<close> in its place.
\<close>

theorem issueProof_first_succeeds_second_fails:
  assumes "generateActionNullifierHash sha256 (zid_nullifier identity) action topic
           \<notin> nt_nullifierHash ` set (nullifierTracker st)"
  shows "\<exists>p st'.
           generateProof sha256 now identity action topic st = (Inr p, st') \<and>
           generateProof_try sha256 now' identity action topic st' =
             (Inl ActionAlreadyPerformed, st') \<and>
           generateProof sha256 now' identity action topic st' =
             (Inl FailedToGenerateProof, st')"
proof -
  let ?h = "generateActionNullifierHash sha256 (zid_nullifier identity) action topic"
  let ?st' = "st\<lparr>nullifierTracker := nullifierTracker st @
                [\<lparr>nt_nullifierHash = ?h, nt_action = action, nt_topic = topic\<rparr>]\<rparr>"
  have used: "fst (checkNullifierUsed ?h action topic ?st')"
    by (simp add: checkNullifierUsed_after_add)
  show ?thesis
    using generateProof_fresh [OF assms, of now]
      generateProof_try_used [OF used, of now'] generateProof_used [OF used, of now']
    by simp
qed

theorem issueProof_first_succeeds_second_fails_witness:
  "generateActionNullifierHash padDigest (zid_nullifier exIdentity) ''upvote'' ''REF-001''
     \<notin> nt_nullifierHash ` set (nullifierTracker exStorage) \<and>
   generateProof padDigest 0 exIdentity ''upvote'' ''REF-001'' exStorage =
     (Inr exArtifact, exStorageIssued) \<and>
   generateProof padDigest 5 exIdentity ''upvote'' ''REF-001'' exStorageIssued =
     (Inl FailedToGenerateProof, exStorageIssued)"
proof -
  have fresh:
    "generateActionNullifierHash padDigest (zid_nullifier exIdentity) ''upvote'' ''REF-001''
       \<notin> nt_nullifierHash ` set (nullifierTracker exStorage)"
    by (simp add: exStorage_def)
  from issueProof_first_succeeds_second_fails [OF fresh, of 0 5]
  show ?thesis
    using fresh by (auto simp: exArtifact_issued)
qed

text \<open>
  The claim C2 as stated fails twice on the scenario of the specification. The second
  call for (upvote, REF-001) does not fail with the already-performed error: its caller
  gets \<^verbatim>\<open>Error('Failed to generate ZK proof')\<close>. And a first call need not succeed: once
  the identity has its proof for (ab, c), nothing is recorded for (a, bc), yet its first
  call for (a, bc) derives the same hash, passes the check, violates the unique constraint
  on insert and fails.
\<close>

theorem issueProof_first_second_counterexample:
  "generateProof padDigest 0 exIdentity ''upvote'' ''REF-001'' exStorage =
     (Inr exArtifact, exStorageIssued) \<and>
   generateProof padDigest 5 exIdentity ''upvote'' ''REF-001'' exStorageIssued =
     (Inl FailedToGenerateProof, exStorageIssued) \<and>
   FailedToGenerateProof \<noteq> ActionAlreadyPerformed \<and>
   generateProof padDigest 0 exIdentity ''ab'' ''c'' exStorage =
     (Inr (issuedArtifact padDigest 0 exIdentity ''ab'' ''c''), exStorageAliased) \<and>
   \<not> fst (checkNullifierUsed
            (generateActionNullifierHash padDigest (zid_nullifier exIdentity) ''a'' ''bc'')
            ''a'' ''bc'' exStorageAliased) \<and>
   generateProof_try padDigest 5 exIdentity ''a'' ''bc'' exStorageAliased =
     (Inl DuplicateNullifier, exStorageAliased) \<and>
   generateProof padDigest 5 exIdentity ''a'' ''bc'' exStorageAliased =
     (Inl FailedToGenerateProof, exStorageAliased)"
proof -
  have second: "generateProof padDigest 5 exIdentity ''upvote'' ''REF-001'' exStorageIssued =
     (Inl FailedToGenerateProof, exStorageIssued)"
    by (simp add: generateProof_def generateProof_try_def Let_def checkNullifierUsed_def
        exStorageIssued_def exIdentity_def)
  have fresh: "generateActionNullifierHash padDigest (zid_nullifier exIdentity) ''ab'' ''c''
        \<notin> nt_nullifierHash ` set (nullifierTracker exStorage)"
    by (simp add: exStorage_def)
  have first: "generateProof padDigest 0 exIdentity ''ab'' ''c'' exStorage =
     (Inr (issuedArtifact padDigest 0 exIdentity ''ab'' ''c''), exStorageAliased)"
    using generateProof_fresh [OF fresh, of 0]
    by (simp add: issuedArtifact_def exStorageAliased_def exStorage_def exIdentity_def)
  have unrecorded: "\<not> fst (checkNullifierUsed
            (generateActionNullifierHash padDigest (zid_nullifier exIdentity) ''a'' ''bc'')
            ''a'' ''bc'' exStorageAliased)"
    by (simp add: checkNullifierUsed_def exStorageAliased_def)
  have inner: "generateProof_try padDigest 5 exIdentity ''a'' ''bc'' exStorageAliased =
     (Inl DuplicateNullifier, exStorageAliased)"
    by (simp add: generateProof_try_def Let_def checkNullifierUsed_def addNullifier_def
        exStorageAliased_def exIdentity_def generateActionNullifierHash_def)
  then have aliased: "generateProof padDigest 5 exIdentity ''a'' ''bc'' exStorageAliased =
     (Inl FailedToGenerateProof, exStorageAliased)"
    by (simp add: generateProof_def)
  show ?thesis
    using exArtifact_issued second first unrecorded inner aliased by simp
qed

text \<open>
  C5. When \<^verbatim>\<open>generateProof\<close> finds the derived nullifier hash recorded for
  (action, topic), the call ends there: the already-performed error is thrown, no
  artifact is returned, and the store after the call is the store before it.
\<close>

theorem issueProof_already_used_no_mutation:
  assumes "fst (checkNullifierUsed
             (generateActionNullifierHash sha256 (zid_nullifier identity) action topic)
             action topic st)"
  shows "generateProof_try sha256 now identity action topic st =
           (Inl ActionAlreadyPerformed, st) \<and>
         generateProof sha256 now identity action topic st = (Inl FailedToGenerateProof, st) \<and>
         set (nullifierTracker (snd (generateProof sha256 now identity action topic st))) =
           set (nullifierTracker st)"
  using generateProof_try_used [OF assms, of now] generateProof_used [OF assms, of now]
  by simp

theorem issueProof_already_used_no_mutation_witness:
  "fst (checkNullifierUsed
          (generateActionNullifierHash padDigest (zid_nullifier exIdentity) ''upvote'' ''REF-001'')
          ''upvote'' ''REF-001'' exStorageIssued) \<and>
   generateProof padDigest 7 exIdentity ''upvote'' ''REF-001'' exStorageIssued =
     (Inl FailedToGenerateProof, exStorageIssued) \<and>
   nullifierTracker (snd (generateProof padDigest 7 exIdentity ''upvote'' ''REF-001''
      exStorageIssued)) = nullifierTracker exStorageIssued"
proof -
  have used:
    "fst (checkNullifierUsed
          (generateActionNullifierHash padDigest (zid_nullifier exIdentity) ''upvote'' ''REF-001'')
          ''upvote'' ''REF-001'' exStorageIssued)"
    by (simp add: checkNullifierUsed_def exStorageIssued_def exIdentity_def)
  from issueProof_already_used_no_mutation [OF used, of 7]
  show ?thesis
    using used by simp
qed

text \<open>
  C6. \<^verbatim>\<open>generateProof\<close> looks neither at the trapdoor nor at the identity registry and does
  not compare the commitment with the secrets: for every commitment string, every other
  field of the bundle and every registry, if the derived nullifier hash is not in the
  ledger the call succeeds and element 0 of the artifact's public signals is that
  commitment.
\<close>

theorem issueProof_binds_any_commitment:
  assumes "generateActionNullifierHash sha256 (zid_nullifier identity) action topic
           \<notin> nt_nullifierHash ` set (nullifierTracker st)"
  shows "\<exists>p st'.
           generateProof sha256 now (identity\<lparr>zid_commitment := c\<rparr>) action topic st =
             (Inr p, st') \<and>
           zkp_publicSignals p ! 0 = c \<and>
           zkp_nullifierHash p =
             generateActionNullifierHash sha256 (zid_nullifier identity) action topic"
proof -
  have "generateActionNullifierHash sha256
          (zid_nullifier (identity\<lparr>zid_commitment := c\<rparr>)) action topic
        \<notin> nt_nullifierHash ` set (nullifierTracker st)"
    using assms by simp
  from generateProof_fresh [OF this, of now]
  show ?thesis by simp
qed

theorem issueProof_binds_any_commitment_witness:
  "generateActionNullifierHash padDigest (zid_nullifier exIdentity) ''upvote'' ''REF-001''
     \<notin> nt_nullifierHash ` set (nullifierTracker emptyStorage) \<and>
   fst (verifyIdentity ''not-a-commitment'' emptyStorage) = False \<and>
   (\<exists>p st'.
      generateProof padDigest 0 (exIdentity\<lparr>zid_commitment := ''not-a-commitment''\<rparr>)
        ''upvote'' ''REF-001'' emptyStorage = (Inr p, st') \<and>
      zkp_publicSignals p ! 0 = ''not-a-commitment'')"
proof -
  have fresh:
    "generateActionNullifierHash padDigest (zid_nullifier exIdentity) ''upvote'' ''REF-001''
       \<notin> nt_nullifierHash ` set (nullifierTracker emptyStorage)"
    by (simp add: emptyStorage_def)
  have unreg: "fst (verifyIdentity ''not-a-commitment'' emptyStorage) = False"
    by (simp add: verifyIdentity_def getZkIdentityByCommitment_def emptyStorage_def)
  from issueProof_binds_any_commitment [OF fresh, of 0 "''not-a-commitment''"]
  show ?thesis
    using fresh unreg by blast
qed

text \<open>
  C3, as the code has it. Two calls of \<^verbatim>\<open>generateProof\<close> for the same identity,
  action and topic start on a store whose ledger does not hold the derived nullifier
  hash, and are interleaved in any order that lets each reach both of its storage awaits,
  also with both existence checks before either insert. Then exactly one call returns an
  artifact, the other returns none and its caller gets
  \<^verbatim>\<open>Error('Failed to generate ZK proof')\<close>, the winner is the call whose insert comes
  first, and the ledger afterwards is the ledger before with exactly one entry for that
  hash added.
\<close>

theorem concurrent_issuance_one_winner:
  assumes fresh: "generateActionNullifierHash sha256 (zid_nullifier identity) action topic
           \<notin> nt_nullifierHash ` set (nullifierTracker st)"
    and "2 \<le> count_list sched True"
    and "2 \<le> count_list sched False"
  shows "\<exists>ra rb st'.
           runCalls sha256 nowA nowB identity action topic sched (AtCheck, AtCheck, st) =
             (Settled ra, Settled rb, st') \<and>
           ((\<exists>p. ra = Inr p) \<and> rb = Inl FailedToGenerateProof \<or>
            ra = Inl FailedToGenerateProof \<and> (\<exists>p. rb = Inr p)) \<and>
           ((\<exists>p. ra = Inr p) \<longleftrightarrow> firstToInsert 0 0 sched = Some True) \<and>
           nullifierTracker st' = nullifierTracker st @
             [\<lparr>nt_nullifierHash =
                 generateActionNullifierHash sha256 (zid_nullifier identity) action topic,
               nt_action = action, nt_topic = topic\<rparr>] \<and>
           length (filter (\<lambda>e. nt_nullifierHash e =
                      generateActionNullifierHash sha256 (zid_nullifier identity) action topic)
                    (nullifierTracker st')) = 1"
proof -
  let ?h = "generateActionNullifierHash sha256 (zid_nullifier identity) action topic"
  obtain ca cb st' where run:
    "runCalls sha256 nowA nowB identity action topic sched (AtCheck, AtCheck, st) = (ca, cb, st')"
    by (cases "runCalls sha256 nowA nowB identity action topic sched (AtCheck, AtCheck, st)")
  from runCalls_rank [OF run] assms(2,3)
  have "2 \<le> callRank ca" "2 \<le> callRank cb"
    by simp_all
  then obtain ra rb where settled: "ca = Settled ra" "cb = Settled rb"
    by (cases ca; cases cb) auto
  have "raceInv sha256 nowA nowB identity action topic st (AtCheck, AtCheck, st)"
    by (simp add: raceInv_def)
  from raceInv_run [OF fresh this, of sched] run settled
  have inv: "raceInv sha256 nowA nowB identity action topic st (Settled ra, Settled rb, st')"
    by simp
  then have st': "st' = recorded ?h action topic st"
    and winner: "(\<exists>p. ra = Inr p) \<and> rb = Inl FailedToGenerateProof \<or>
            ra = Inl FailedToGenerateProof \<and> (\<exists>p. rb = Inr p)"
    by (auto simp: raceInv_def)
  have none: "filter (\<lambda>e. nt_nullifierHash e = ?h) (nullifierTracker st) = []"
    using fresh by (force simp: filter_empty_conv)
  have one: "length (filter (\<lambda>e. nt_nullifierHash e = ?h) (nullifierTracker st')) = 1"
    by (simp add: st' recorded_def none)
  from first_to_insert_wins [OF fresh _ _ run] settled
  have first: "firstToInsert 0 0 sched = Some True \<longrightarrow> (\<exists>p. ra = Inr p)"
    "firstToInsert 0 0 sched = Some False \<longrightarrow> (\<exists>p. rb = Inr p)"
    by simp_all
  from firstToInsert_Some [of 0 0 sched] assms(2,3)
  have "firstToInsert 0 0 sched = Some True \<or> firstToInsert 0 0 sched = Some False"
    by (cases "firstToInsert 0 0 sched") auto
  with first winner have "(\<exists>p. ra = Inr p) \<longleftrightarrow> firstToInsert 0 0 sched = Some True"
    by auto
  with run settled winner st' one show ?thesis
    by (simp add: recorded_def)
qed

theorem concurrent_issuance_one_winner_witness:
  "generateActionNullifierHash padDigest (zid_nullifier exIdentity) ''upvote'' ''REF-001''
     \<notin> nt_nullifierHash ` set (nullifierTracker exStorage) \<and>
   2 \<le> count_list [True, False, True, False] True \<and>
   2 \<le> count_list [True, False, True, False] False \<and>
   firstToInsert 0 0 [True, False, True, False] = Some True \<and>
   runCalls padDigest 0 5 exIdentity ''upvote'' ''REF-001'' [True, False, True, False]
     (AtCheck, AtCheck, exStorage) =
   (Settled (Inr exArtifact), Settled (Inl FailedToGenerateProof), exStorageIssued) \<and>
   length (filter (\<lambda>e. nt_nullifierHash e =
              generateActionNullifierHash padDigest (zid_nullifier exIdentity)
                ''upvote'' ''REF-001'')
            (nullifierTracker exStorageIssued)) = 1"
proof -
  have fresh:
    "generateActionNullifierHash padDigest (zid_nullifier exIdentity) ''upvote'' ''REF-001''
       \<notin> nt_nullifierHash ` set (nullifierTracker exStorage)"
    by (simp add: exStorage_def)
  have a: "2 \<le> count_list [True, False, True, False] True"
    by simp
  have b: "2 \<le> count_list [True, False, True, False] False"
    by simp
  have one: "length (filter (\<lambda>e. nt_nullifierHash e =
              generateActionNullifierHash padDigest (zid_nullifier exIdentity)
                ''upvote'' ''REF-001'')
            (nullifierTracker exStorageIssued)) = 1"
    by (simp add: exStorageIssued_def exStorage_def exIdentity_def)
  from concurrent_issuance_one_winner [OF fresh a b, of 0 5]
  obtain ra rb st' where
    "runCalls padDigest 0 5 exIdentity ''upvote'' ''REF-001'' [True, False, True, False]
       (AtCheck, AtCheck, exStorage) = (Settled ra, Settled rb, st')"
    by blast
  moreover have "firstToInsert 0 0 [True, False, True, False] = Some True"
    by simp
  ultimately show ?thesis
    using raced_checks_example fresh a b one by blast
qed

text \<open>
  The claim C3 as stated fails when the existence checks raced: the losing call passes
  its check, its insert violates the unique constraint, and nothing translates that into
  the already-performed error. Inside the \<^verbatim>\<open>try\<close> block the loser has the constraint
  violation, and its caller gets \<^verbatim>\<open>Error('Failed to generate ZK proof')\<close>.
\<close>

theorem concurrent_issuance_counterexample:
  "runCalls padDigest 0 5 exIdentity ''upvote'' ''REF-001'' [True, False, True, False]
     (AtCheck, AtCheck, exStorage) =
   (Settled (Inr exArtifact), Settled (Inl FailedToGenerateProof), exStorageIssued) \<and>
   runCalls_try padDigest 0 5 exIdentity ''upvote'' ''REF-001'' [True, False, True, False]
     (AtCheck, AtCheck, exStorage) =
   (Settled (Inr exArtifact), Settled (Inl DuplicateNullifier), exStorageIssued) \<and>
   FailedToGenerateProof \<noteq> ActionAlreadyPerformed \<and>
   DuplicateNullifier \<noteq> ActionAlreadyPerformed"
  using raced_checks_example raced_checks_try_example by simp

section \<open>Verification\<close>

text \<open>
  C1, as the code has it. Every artifact a successful \<^verbatim>\<open>generateProof\<close> returns is
  rejected by \<^verbatim>\<open>verifyProof\<close> with the same action and topic on the store issuance
  left: the nullifier recorded at issuance is read as a double-spending attempt.
  A second verification gives the same answer, and neither changes the store.
\<close>

theorem verifyProof_after_issuance_rejects:
  assumes "generateProof sha256 now identity action topic st = (Inr p, st')"
  shows "verifyProof p action topic st' = (False, st') \<and>
         verifyProof p action topic (snd (verifyProof p action topic st')) = (False, st')"
proof -
  from generateProof_Inr_D(2) [OF assms]
  have "checkNullifierUsed (zkp_nullifierHash p) action topic st' = (True, st')"
    using checkNullifierUsed_after_add [of "zkp_nullifierHash p" action topic st] by simp
  then have "verifyProof p action topic st' = (False, st')"
    by (simp add: verifyProof_def)
  then show ?thesis by simp
qed

theorem verifyProof_after_issuance_rejects_witness:
  "generateProof padDigest 0 exIdentity ''upvote'' ''REF-001'' exStorage =
     (Inr exArtifact, exStorageIssued) \<and>
   verifyProof exArtifact ''upvote'' ''REF-001'' exStorageIssued = (False, exStorageIssued)"
  using verifyProof_after_issuance_rejects [OF exArtifact_issued] exArtifact_issued
  by simp

text \<open>
  The claim C1 as stated fails on the scenario of the specification: the identity is
  registered and valid, issuance succeeds, the artifact passes every structural test,
  and verification right after issuance answers false.
\<close>

theorem verifyProof_after_issuance_counterexample:
  "fst (verifyIdentity (zid_commitment exIdentity) exStorage) = True \<and>
   generateProof padDigest 0 exIdentity ''upvote'' ''REF-001'' exStorage =
     (Inr exArtifact, exStorageIssued) \<and>
   zkp_proof exArtifact \<noteq> [] \<and>
   length (zkp_publicSignals exArtifact) = 3 \<and>
   startsWith (zkp_nullifierHash exArtifact) ''0x'' \<and>
   length (zkp_nullifierHash exArtifact) = 66 \<and>
   fst (verifyProof exArtifact ''upvote'' ''REF-001'' exStorageIssued) = False"
proof -
  have "fst (verifyIdentity (zid_commitment exIdentity) exStorage) = True"
    by (simp add: verifyIdentity_def getZkIdentityByCommitment_def exStorage_def exIdentity_def)
  moreover have "fst (verifyProof exArtifact ''upvote'' ''REF-001'' exStorageIssued) = False"
    by (simp add: verifyProof_def checkNullifierUsed_def exStorageIssued_def exArtifact_def)
  ultimately show ?thesis
    using exArtifact_issued exArtifact_well_formed by simp
qed

text \<open>
  C4, as the code has it. \<^verbatim>\<open>verifyProof\<close> answers false, and leaves the store alone,
  whenever the proof string is empty, or the public signals are not exactly 3, or the
  nullifier hash does not start with 0x, or its length is not 66.
\<close>

theorem verifyProof_rejects_malformed:
  assumes "zkp_proof p = [] \<or> length (zkp_publicSignals p) \<noteq> 3 \<or>
           \<not> startsWith (zkp_nullifierHash p) ''0x'' \<or> length (zkp_nullifierHash p) \<noteq> 66"
  shows "verifyProof p action topic st = (False, st)"
  using assms by (auto simp: verifyProof_def)

theorem verifyProof_rejects_malformed_witness:
  "zkp_proof (exArtifact\<lparr>zkp_proof := []\<rparr>) = [] \<and>
   verifyProof (exArtifact\<lparr>zkp_proof := []\<rparr>) ''upvote'' ''REF-001'' exStorage =
     (False, exStorage) \<and>
   length (zkp_publicSignals (exArtifact\<lparr>zkp_publicSignals := [''a'', ''b'']\<rparr>)) \<noteq> 3 \<and>
   verifyProof (exArtifact\<lparr>zkp_publicSignals := [''a'', ''b'']\<rparr>) ''upvote'' ''REF-001''
     exStorage = (False, exStorage) \<and>
   \<not> startsWith (zkp_nullifierHash (exArtifact\<lparr>zkp_nullifierHash := ''1x00''\<rparr>)) ''0x'' \<and>
   verifyProof (exArtifact\<lparr>zkp_nullifierHash := ''1x00''\<rparr>) ''upvote'' ''REF-001''
     exStorage = (False, exStorage) \<and>
   length (zkp_nullifierHash (exArtifact\<lparr>zkp_nullifierHash := ''0x00''\<rparr>)) \<noteq> 66 \<and>
   verifyProof (exArtifact\<lparr>zkp_nullifierHash := ''0x00''\<rparr>) ''upvote'' ''REF-001''
     exStorage = (False, exStorage)"
proof -
  have a: "zkp_proof (exArtifact\<lparr>zkp_proof := []\<rparr>) = []"
    by simp
  have b: "length (zkp_publicSignals (exArtifact\<lparr>zkp_publicSignals := [''a'', ''b'']\<rparr>)) \<noteq> 3"
    by simp
  have c: "\<not> startsWith (zkp_nullifierHash (exArtifact\<lparr>zkp_nullifierHash := ''1x00''\<rparr>)) ''0x''"
    by (simp add: startsWith_def)
  have d: "length (zkp_nullifierHash (exArtifact\<lparr>zkp_nullifierHash := ''0x00''\<rparr>)) \<noteq> 66"
    by simp
  show ?thesis
    using a b c d
      verifyProof_rejects_malformed [of "exArtifact\<lparr>zkp_proof := []\<rparr>"
        "''upvote''" "''REF-001''" exStorage]
      verifyProof_rejects_malformed [of "exArtifact\<lparr>zkp_publicSignals := [''a'', ''b'']\<rparr>"
        "''upvote''" "''REF-001''" exStorage]
      verifyProof_rejects_malformed [of "exArtifact\<lparr>zkp_nullifierHash := ''1x00''\<rparr>"
        "''upvote''" "''REF-001''" exStorage]
      verifyProof_rejects_malformed [of "exArtifact\<lparr>zkp_nullifierHash := ''0x00''\<rparr>"
        "''upvote''" "''REF-001''" exStorage]
    by blast
qed

text \<open>
  The claim C4 as stated fails: \<^verbatim>\<open>verifyProof\<close> accepts an artifact whose nullifier hash
  differs from element 1 of its public signals, and one whose nullifier hash holds no
  hexadecimal digit after the prefix.
\<close>

theorem verifyProof_structural_counterexample:
  "zkp_nullifierHash forgedMismatch \<noteq> zkp_publicSignals forgedMismatch ! 1 \<and>
   fst (verifyProof forgedMismatch ''upvote'' ''REF-001'' exStorage) = True \<and>
   CHR ''z'' \<in> set (zkp_nullifierHash forgedNonHex) \<and>
   fst (verifyProof forgedNonHex ''upvote'' ''REF-001'' exStorage) = True"
proof -
  have "zkp_nullifierHash forgedMismatch \<noteq> zkp_publicSignals forgedMismatch ! 1"
    by (simp add: forgedMismatch_def)
  moreover have "fst (verifyProof forgedMismatch ''upvote'' ''REF-001'' exStorage) = True"
    by (simp add: verifyProof_def forgedMismatch_def startsWith_def checkNullifierUsed_def
        getZkIdentityByCommitment_def exStorage_def)
  moreover have "CHR ''z'' \<in> set (zkp_nullifierHash forgedNonHex)"
    by (simp add: forgedNonHex_def)
  moreover have "fst (verifyProof forgedNonHex ''upvote'' ''REF-001'' exStorage) = True"
    by (simp add: verifyProof_def forgedNonHex_def startsWith_def checkNullifierUsed_def
        getZkIdentityByCommitment_def exStorage_def)
  ultimately show ?thesis by simp
qed

text \<open>
  C8. For an artifact that passes the structural test of \<^verbatim>\<open>verifyProof\<close> (every
  artifact the specification calls well-formed does) and whose nullifier hash is not
  recorded for (action, topic), the answer is decided by the identity record of the
  commitment in element 0 of the public signals: false when there is none, false when
  its \<^verbatim>\<open>isValid\<close> is false, true when its \<^verbatim>\<open>isValid\<close> is true.
\<close>

theorem verifyProof_identity_check:
  assumes "zkp_proof p \<noteq> []"
    and "length (zkp_publicSignals p) = 3"
    and "startsWith (zkp_nullifierHash p) ''0x''"
    and "length (zkp_nullifierHash p) = 66"
    and "\<not> fst (checkNullifierUsed (zkp_nullifierHash p) action topic st)"
  shows "fst (verifyProof p action topic st) =
           (case fst (getZkIdentityByCommitment (zkp_publicSignals p ! 0) st) of
              None \<Rightarrow> False
            | Some i \<Rightarrow> zk_isValid i)"
proof -
  from assms(4) have nonempty: "zkp_nullifierHash p \<noteq> []"
    by auto
  from assms(5) have unused: "checkNullifierUsed (zkp_nullifierHash p) action topic st = (False, st)"
    by (simp add: checkNullifierUsed_def)
  show ?thesis
    using assms(1-4) nonempty
    by (simp add: verifyProof_def unused getZkIdentityByCommitment_def split: option.splits)
qed

theorem verifyProof_identity_check_witness:
  "zkp_proof exArtifact \<noteq> [] \<and>
   length (zkp_publicSignals exArtifact) = 3 \<and>
   startsWith (zkp_nullifierHash exArtifact) ''0x'' \<and>
   length (zkp_nullifierHash exArtifact) = 66 \<and>
   \<not> fst (checkNullifierUsed (zkp_nullifierHash exArtifact) ''upvote'' ''REF-001'' emptyStorage) \<and>
   fst (verifyProof exArtifact ''upvote'' ''REF-001'' emptyStorage) = False \<and>
   \<not> fst (checkNullifierUsed (zkp_nullifierHash exArtifact) ''upvote'' ''REF-001''
            exStorageRevoked) \<and>
   fst (verifyProof exArtifact ''upvote'' ''REF-001'' exStorageRevoked) = False \<and>
   \<not> fst (checkNullifierUsed (zkp_nullifierHash exArtifact) ''upvote'' ''REF-001'' exStorage) \<and>
   fst (verifyProof exArtifact ''upvote'' ''REF-001'' exStorage) = True"
proof -
  have u1: "\<not> fst (checkNullifierUsed (zkp_nullifierHash exArtifact) ''upvote'' ''REF-001''
                    emptyStorage)"
    by (simp add: checkNullifierUsed_def emptyStorage_def)
  have u2: "\<not> fst (checkNullifierUsed (zkp_nullifierHash exArtifact) ''upvote'' ''REF-001''
                    exStorageRevoked)"
    by (simp add: checkNullifierUsed_def exStorageRevoked_def)
  have u3: "\<not> fst (checkNullifierUsed (zkp_nullifierHash exArtifact) ''upvote'' ''REF-001''
                    exStorage)"
    by (simp add: checkNullifierUsed_def exStorage_def)
  have l1: "fst (getZkIdentityByCommitment (zkp_publicSignals exArtifact ! 0) emptyStorage) = None"
    by (simp add: getZkIdentityByCommitment_def emptyStorage_def)
  have l2: "fst (getZkIdentityByCommitment (zkp_publicSignals exArtifact ! 0) exStorageRevoked) =
              Some (hd (zkIdentities exStorageRevoked))"
    by (simp add: getZkIdentityByCommitment_def exStorageRevoked_def exArtifact_def)
  have l3: "fst (getZkIdentityByCommitment (zkp_publicSignals exArtifact ! 0) exStorage) =
              Some (hd (zkIdentities exStorage))"
    by (simp add: getZkIdentityByCommitment_def exStorage_def exArtifact_def)
  have v2: "\<not> zk_isValid (hd (zkIdentities exStorageRevoked))"
    by (simp add: exStorageRevoked_def)
  have v3: "zk_isValid (hd (zkIdentities exStorage))"
    by (simp add: exStorage_def)
  show ?thesis
    using exArtifact_well_formed u1 u2 u3 v2 v3
      verifyProof_identity_check [OF exArtifact_well_formed u1]
      verifyProof_identity_check [OF exArtifact_well_formed u2]
      verifyProof_identity_check [OF exArtifact_well_formed u3]
    by (simp add: l1 l2 l3)
qed

text \<open>
  C9. \<^verbatim>\<open>verifyProof\<close> only queries the storage: for every artifact, action, topic and
  store, whatever the answer, the store after the call (ledger and registry) is the store
  before it.
\<close>

theorem verifyProof_no_mutation:
  "snd (verifyProof p action topic st) = st"
  by (simp add: verifyProof_def checkNullifierUsed_def getZkIdentityByCommitment_def
      split: option.splits)

theorem verifyProof_no_mutation_witness:
  "snd (verifyProof exArtifact ''upvote'' ''REF-001'' exStorageIssued) = exStorageIssued \<and>
   snd (verifyProof exArtifact ''upvote'' ''REF-001'' exStorage) = exStorage \<and>
   snd (verifyProof forgedMismatch ''upvote'' ''REF-001'' emptyStorage) = emptyStorage"
  using verifyProof_no_mutation [of exArtifact "''upvote''" "''REF-001''" exStorageIssued]
    verifyProof_no_mutation [of exArtifact "''upvote''" "''REF-001''" exStorage]
    verifyProof_no_mutation [of forgedMismatch "''upvote''" "''REF-001''" emptyStorage]
  by simp

section \<open>Encryption\<close>

text \<open>
  C10 at a concrete input. On the \<^verbatim>\<open>crypto\<close> module of Node.js, \<^verbatim>\<open>encrypt\<close> called with
  the plaintext hello and no key ends in its \<^verbatim>\<open>catch\<close> with
  \<^verbatim>\<open>Error('Failed to encrypt data')\<close>; so it does when a key of 64 hexadecimal digits is
  supplied, and so does \<^verbatim>\<open>encryptForClient\<close> on every payload. \<^verbatim>\<open>decrypt\<close> and
  \<^verbatim>\<open>decryptFromClient\<close> end in their \<^verbatim>\<open>catch\<close> on every input. No call returns a
  ciphertext, and none returns the plaintext.
\<close>

theorem encrypt_fails_on_node:
  "encrypt nodeCrypto ''hello'' None = Inl FailedToEncrypt \<and>
   encrypt nodeCrypto ''hello''
     (Some ''000102030405060708090a0b0c0d0e0f101112131415161718191a1b1c1d1e1f'') =
     Inl FailedToEncrypt \<and>
   encryptForClient nodeCrypto js data = Inl FailedToEncrypt \<and>
   decrypt nodeCrypto encryptedData = Inl FailedToDecrypt \<and>
   decryptFromClient nodeCrypto js encryptedString = Inl FailedToDecryptClient"
proof -
  have "createCipherGCM nodeCrypto = None" and "createDecipherGCM nodeCrypto = None"
    by (simp_all add: nodeCrypto_def)
  then show ?thesis
    by (simp add: encrypt_without_createCipherGCM encryptForClient_without_createCipherGCM
        decrypt_without_createDecipherGCM decryptFromClient_without_createDecipherGCM)
qed

end
